theory Spec2Isabelle
  imports Main
begin

section \<open>GhostChat backend: data model\<close>

text \<open>
  A shallow embedding of \<^verbatim>\<open>ghostchat-project/backend/server.py\<close>.

  Python strings are modelled as HOL strings whose characters stand for the code points
  below 256. A decoded JSON payload is a value of the type \<open>json\<close>; a JSON object is
  given by the items of the Python dict it decodes to (so its keys are distinct). JSON
  numbers are restricted to integers.
\<close>

datatype json =
    JNull
  | JBool bool
  | JInt int
  | JStr string
  | JArr "json list"
  | JObj "(string \<times> json) list"

text \<open>The exceptions the server code can meet.\<close>

datatype exn =
    WebSocketDisconnect
  | JSONDecodeError
  | AttributeError
  | TypeError
  | RuntimeError

text \<open>
  A \<^verbatim>\<open>WebSocket\<close> object is known by its identity. What \<^verbatim>\<open>send_json\<close> does on
  it is decided by the transport: it returns, or it raises.
\<close>

type_synonym websocket = nat

datatype send_result = Sent | Raises exn

datatype log_entry =
    InfoConnected string nat
  | InfoDisconnected string nat
  | ErrorFailedToSend json exn
  | ErrorWebSocket exn

text \<open>
  \<^verbatim>\<open>class ConnectionManager\<close>: \<^verbatim>\<open>active_connections: Dict[str, WebSocket]\<close> keeps
  Python's insertion order (it is listed by \<^verbatim>\<open>get_online_users\<close> and walked by
  \<^verbatim>\<open>broadcast_status\<close>), so it is an association list; \<^verbatim>\<open>typing_users\<close> is only
  looked up by key and walked for \<^verbatim>\<open>discard\<close>, so it is a map to sets.
\<close>

record ConnectionManager =
  active_connections :: "(string \<times> websocket) list"
  typing_users :: "json \<rightharpoonup> string set"

text \<open>
  The world a connection handler runs in: the manager, the transport (\<open>net k\<close> is what
  the \<open>k\<close>-th call of \<^verbatim>\<open>send_json\<close> does), the calls of \<^verbatim>\<open>send_json\<close> made so
  far with their results, oldest first, and the log.
\<close>

record world = ConnectionManager +
  net :: "nat \<Rightarrow> send_result"
  wire :: "(websocket \<times> json \<times> send_result) list"
  logged :: "log_entry list"

subsection \<open>Python values\<close>

text \<open>Truth value of a decoded JSON value in an \<^verbatim>\<open>if\<close>.\<close>

fun truthy :: "json \<Rightarrow> bool" where
  "truthy JNull = False"
| "truthy (JBool b) = b"
| "truthy (JInt n) = (n \<noteq> 0)"
| "truthy (JStr s) = (s \<noteq> [])"
| "truthy (JArr xs) = (xs \<noteq> [])"
| "truthy (JObj kvs) = (kvs \<noteq> [])"

text \<open>
  The key a value is stored under in a dict: lists and dicts are unhashable
  (\<^verbatim>\<open>TypeError\<close>, here \<open>None\<close>), and \<^verbatim>\<open>True == 1\<close>, \<^verbatim>\<open>False == 0\<close>.
\<close>

fun dict_key :: "json \<Rightarrow> json option" where
  "dict_key (JArr xs) = None"
| "dict_key (JObj kvs) = None"
| "dict_key (JBool b) = Some (JInt (if b then 1 else 0))"
| "dict_key j = Some j"

text \<open>\<^verbatim>\<open>d[k] = v\<close> and \<^verbatim>\<open>del d[k]\<close> on an insertion-ordered dict.\<close>

fun dict_set :: "'k \<Rightarrow> 'v \<Rightarrow> ('k \<times> 'v) list \<Rightarrow> ('k \<times> 'v) list" where
  "dict_set k v [] = [(k, v)]"
| "dict_set k v ((k', v') # d) = (if k' = k then (k', v) # d else (k', v') # dict_set k v d)"

definition dict_del :: "'k \<Rightarrow> ('k \<times> 'v) list \<Rightarrow> ('k \<times> 'v) list" where
  "dict_del k d = filter (\<lambda>kv. fst kv \<noteq> k) d"

text \<open>\<^verbatim>\<open>str.strip()\<close>: the white space of Python among the code points below 256.\<close>

definition is_space :: "char \<Rightarrow> bool" where
  "is_space c = (of_char c \<in> {9, 10, 11, 12, 13, 28, 29, 30, 31, 32, 133, 160 :: nat})"

definition strip :: "string \<Rightarrow> string" where
  "strip s = rev (dropWhile is_space (rev (dropWhile is_space s)))"

section \<open>ConnectionManager\<close>

text \<open>\<^verbatim>\<open>await ws.send_json(message)\<close>: the call is recorded with what the transport did.\<close>

definition send_json :: "websocket \<Rightarrow> json \<Rightarrow> world \<Rightarrow> send_result \<times> world" where
  "send_json ws message w =
     (let r = net w (length (wire w))
      in (r, w\<lparr>wire := wire w @ [(ws, message, r)]\<rparr>))"

text \<open>
  \<^verbatim>\<open>broadcast_status\<close>: every entry but the user's own is sent the status event; the
  bare \<^verbatim>\<open>except: pass\<close> drops whatever a send raises.
\<close>

fun broadcast_to :: "string \<Rightarrow> json \<Rightarrow> (string \<times> websocket) list \<Rightarrow> world \<Rightarrow> world" where
  "broadcast_to user_id message [] w = w"
| "broadcast_to user_id message ((uid, ws) # items) w =
     broadcast_to user_id message items
       (if uid \<noteq> user_id then snd (send_json ws message w) else w)"

definition status_event :: "string \<Rightarrow> string \<Rightarrow> json" where
  "status_event user_id status =
     JObj [(''type'', JStr ''status''), (''user_id'', JStr user_id), (''status'', JStr status)]"

definition broadcast_status :: "string \<Rightarrow> string \<Rightarrow> world \<Rightarrow> world" where
  "broadcast_status user_id status w =
     broadcast_to user_id (status_event user_id status) (active_connections w) w"

text \<open>
  \<^verbatim>\<open>connect\<close>. The handshake \<^verbatim>\<open>websocket.accept()\<close> is taken to return: were it to
  raise, nothing of the manager would have been touched.
\<close>

definition connect :: "string \<Rightarrow> websocket \<Rightarrow> world \<Rightarrow> world" where
  "connect user_id websocket w =
     (let w1 = w\<lparr>active_connections := dict_set user_id websocket (active_connections w)\<rparr>;
          w2 = w1\<lparr>logged := logged w1 @ [InfoConnected user_id (length (active_connections w1))]\<rparr>
      in broadcast_status user_id ''online'' w2)"

definition disconnect :: "string \<Rightarrow> world \<Rightarrow> world" where
  "disconnect user_id w =
     (if user_id \<in> set (map fst (active_connections w)) then
        (let w1 = w\<lparr>active_connections := dict_del user_id (active_connections w)\<rparr>;
             w2 = w1\<lparr>typing_users := map_option (\<lambda>recipients. recipients - {user_id}) \<circ> typing_users w1\<rparr>
         in w2\<lparr>logged := logged w2 @ [InfoDisconnected user_id (length (active_connections w2))]\<rparr>)
      else w)"

definition is_online :: "string \<Rightarrow> world \<Rightarrow> bool" where
  "is_online user_id w = (user_id \<in> set (map fst (active_connections w)))"

definition get_online_users :: "world \<Rightarrow> string list" where
  "get_online_users w = map fst (active_connections w)"

text \<open>
  \<^verbatim>\<open>send_to_user\<close>. The membership test hashes its argument, outside the \<^verbatim>\<open>try\<close>;
  the keys of \<^verbatim>\<open>active_connections\<close> are strings, so no other value is found there.
\<close>

definition send_to_user :: "json \<Rightarrow> json \<Rightarrow> world \<Rightarrow> (exn + bool) \<times> world" where
  "send_to_user user_id message w =
     (case dict_key user_id of
        None \<Rightarrow> (Inl TypeError, w)
      | Some (JStr uid) \<Rightarrow>
          (case map_of (active_connections w) uid of
             Some ws \<Rightarrow>
               (case send_json ws message w of
                  (Sent, w1) \<Rightarrow> (Inr True, w1)
                | (Raises e, w1) \<Rightarrow>
                    (Inr False, w1\<lparr>logged := logged w1 @ [ErrorFailedToSend user_id e]\<rparr>))
           | None \<Rightarrow> (Inr False, w))
      | Some _ \<Rightarrow> (Inr False, w))"

text \<open>
  \<^verbatim>\<open>set_typing\<close>. The first statement hashes \<^verbatim>\<open>recipient_id\<close> and raises before
  anything is changed when that fails. The flag is passed by its truth value.
\<close>

definition set_typing :: "string \<Rightarrow> json \<Rightarrow> bool \<Rightarrow> world \<Rightarrow> exn + world" where
  "set_typing sender_id recipient_id is_typing w =
     (case dict_key recipient_id of
        None \<Rightarrow> Inl TypeError
      | Some k \<Rightarrow>
          (let t = (case typing_users w k of None \<Rightarrow> (typing_users w)(k \<mapsto> {}) | Some _ \<Rightarrow> typing_users w);
               s = (case t k of None \<Rightarrow> {} | Some s \<Rightarrow> s)
           in Inr (w\<lparr>typing_users :=
                 (if is_typing then t(k \<mapsto> insert sender_id s) else t(k \<mapsto> s - {sender_id}))\<rparr>)))"

section \<open>The connection endpoint\<close>

text \<open>\<^verbatim>\<open>data.get(key, default)\<close> on a decoded JSON object.\<close>

definition get :: "(string \<times> json) list \<Rightarrow> string \<Rightarrow> json \<Rightarrow> json" where
  "get d key dflt = (case map_of d key of None \<Rightarrow> dflt | Some v \<Rightarrow> v)"

definition message_event :: "string \<Rightarrow> string \<Rightarrow> string \<Rightarrow> json" where
  "message_event anonymous_id text now =
     JObj [(''type'', JStr ''message''), (''sender_id'', JStr anonymous_id),
           (''text'', JStr text), (''timestamp'', JStr now)]"

definition message_sent_event :: "json \<Rightarrow> bool \<Rightarrow> string \<Rightarrow> json" where
  "message_sent_event recipient_id sent now =
     JObj [(''type'', JStr ''message_sent''), (''recipient_id'', recipient_id),
           (''delivered'', JBool sent), (''timestamp'', JStr now)]"

definition typing_event :: "string \<Rightarrow> json \<Rightarrow> json" where
  "typing_event anonymous_id is_typing =
     JObj [(''type'', JStr ''typing''), (''sender_id'', JStr anonymous_id), (''is_typing'', is_typing)]"

definition pong_event :: json where
  "pong_event = JObj [(''type'', JStr ''pong'')]"

text \<open>
  The body of the \<^verbatim>\<open>while True\<close> loop of \<^verbatim>\<open>websocket_endpoint\<close> once
  \<^verbatim>\<open>receive_json\<close> has returned \<open>data\<close>; \<open>now\<close> is what the clock reads in this
  round. The result is the exception that leaves the body, if any, and the world as the
  body left it. \<^verbatim>\<open>data.get\<close> exists on a dict only, and \<^verbatim>\<open>.strip()\<close> on a string
  only.
\<close>

definition dispatch :: "websocket \<Rightarrow> string \<Rightarrow> string \<Rightarrow> json \<Rightarrow> world \<Rightarrow> exn option \<times> world" where
  "dispatch websocket anonymous_id now data w =
     (case data of
        JObj d \<Rightarrow>
          if get d ''type'' JNull = JStr ''message'' then
            (let recipient_id = get d ''recipient_id'' JNull in
             case get d ''text'' (JStr []) of
               JStr s \<Rightarrow>
                 (let text = strip s in
                  if truthy recipient_id \<and> text \<noteq> [] then
                    (case set_typing anonymous_id recipient_id False w of
                       Inl e \<Rightarrow> (Some e, w)
                     | Inr w1 \<Rightarrow>
                         (case send_to_user recipient_id (message_event anonymous_id text now) w1 of
                            (Inl e, w2) \<Rightarrow> (Some e, w2)
                          | (Inr sent, w2) \<Rightarrow>
                              (case send_json websocket (message_sent_event recipient_id sent now) w2 of
                                 (Sent, w3) \<Rightarrow> (None, w3)
                               | (Raises e, w3) \<Rightarrow> (Some e, w3))))
                  else (None, w))
             | _ \<Rightarrow> (Some AttributeError, w))
          else if get d ''type'' JNull = JStr ''typing'' then
            (let recipient_id = get d ''recipient_id'' JNull;
                 is_typing = get d ''is_typing'' (JBool True)
             in if truthy recipient_id then
                  (case set_typing anonymous_id recipient_id (truthy is_typing) w of
                     Inl e \<Rightarrow> (Some e, w)
                   | Inr w1 \<Rightarrow>
                       (case send_to_user recipient_id (typing_event anonymous_id is_typing) w1 of
                          (Inl e, w2) \<Rightarrow> (Some e, w2)
                        | (Inr sent, w2) \<Rightarrow> (None, w2)))
                else (None, w))
          else if get d ''type'' JNull = JStr ''ping'' then
            (case send_json websocket pong_event w of
               (Sent, w1) \<Rightarrow> (None, w1)
             | (Raises e, w1) \<Rightarrow> (Some e, w1))
          else (None, w)
      | _ \<Rightarrow> (Some AttributeError, w))"

text \<open>The two \<^verbatim>\<open>except\<close> clauses of \<^verbatim>\<open>websocket_endpoint\<close>.\<close>

definition on_exception :: "exn \<Rightarrow> string \<Rightarrow> world \<Rightarrow> world" where
  "on_exception e anonymous_id w =
     (if e = WebSocketDisconnect then
        broadcast_status anonymous_id ''offline'' (disconnect anonymous_id w)
      else
        disconnect anonymous_id (w\<lparr>logged := logged w @ [ErrorWebSocket e]\<rparr>))"

text \<open>
  What \<^verbatim>\<open>await websocket.receive_json()\<close> gives in one round: a decoded value, or
  an exception (\<^verbatim>\<open>WebSocketDisconnect\<close> when the peer closes, another one when the
  frame cannot be read or decoded).
\<close>

datatype received = Data json | Raised exn

datatype conn_state = OPEN | CLOSED

text \<open>
  The loop, run on the rounds that have happened so far, each with its clock reading:
  \<open>OPEN\<close> when the handler is still waiting in \<^verbatim>\<open>receive_json\<close>, \<open>CLOSED\<close>
  when it has returned.
\<close>

fun websocket_loop :: "websocket \<Rightarrow> string \<Rightarrow> (string \<times> received) list \<Rightarrow> world \<Rightarrow> conn_state \<times> world" where
  "websocket_loop websocket anonymous_id [] w = (OPEN, w)"
| "websocket_loop websocket anonymous_id ((now, Raised e) # rounds) w =
     (CLOSED, on_exception e anonymous_id w)"
| "websocket_loop websocket anonymous_id ((now, Data data) # rounds) w =
     (case dispatch websocket anonymous_id now data w of
        (None, w1) \<Rightarrow> websocket_loop websocket anonymous_id rounds w1
      | (Some e, w1) \<Rightarrow> (CLOSED, on_exception e anonymous_id w1))"

definition websocket_endpoint :: "websocket \<Rightarrow> string \<Rightarrow> (string \<times> received) list \<Rightarrow> world \<Rightarrow> conn_state \<times> world" where
  "websocket_endpoint websocket anonymous_id rounds w =
     websocket_loop websocket anonymous_id rounds (connect anonymous_id websocket w)"

text \<open>The world at process start: \<^verbatim>\<open>manager = ConnectionManager()\<close>.\<close>

definition world_init :: "(nat \<Rightarrow> send_result) \<Rightarrow> world" where
  "world_init transport =
     \<lparr>active_connections = [], typing_users = Map.empty, net = transport, wire = [], logged = []\<rparr>"

text \<open>A run of \<^verbatim>\<open>connect\<close> and \<^verbatim>\<open>disconnect\<close> calls on the manager.\<close>

datatype registry_call = Register string websocket | Unregister string

fun registry_calls :: "registry_call list \<Rightarrow> world \<Rightarrow> world" where
  "registry_calls [] w = w"
| "registry_calls (Register user_id websocket # cs) w = registry_calls cs (connect user_id websocket w)"
| "registry_calls (Unregister user_id # cs) w = registry_calls cs (disconnect user_id w)"

section \<open>Worlds used as examples\<close>

definition stale_typing_world :: world where
  "stale_typing_world =
     \<lparr>active_connections = [], typing_users = [JStr ''7654321'' \<mapsto> {''1234567''}],
      net = (\<lambda>k. Sent), wire = [], logged = []\<rparr>"

definition online_typing_world :: world where
  "online_typing_world =
     \<lparr>active_connections = [(''1234567'', 1), (''7654321'', 2)],
      typing_users = [JStr ''7654321'' \<mapsto> {''1234567''}],
      net = (\<lambda>k. Sent), wire = [], logged = []\<rparr>"

definition chat_world :: world where
  "chat_world =
     \<lparr>active_connections = [(''1234567'', 1), (''7654321'', 2)], typing_users = Map.empty,
      net = (\<lambda>k. Sent), wire = [], logged = []\<rparr>"

text \<open>The \<^verbatim>\<open>type\<close> tag of an outbound event.\<close>

definition event_type :: "json \<Rightarrow> json" where
  "event_type ev = (case ev of JObj d \<Rightarrow> get d ''type'' JNull | _ \<Rightarrow> JNull)"

section \<open>The contact endpoint\<close>

text \<open>
  The two tables of \<^verbatim>\<open>init_db\<close>, rows in insertion order. Both tables have a column
  \<^verbatim>\<open>id\<close>; the fields carry the table's initial. \<^verbatim>\<open>telegram_id\<close> and
  \<^verbatim>\<open>anonymous_id\<close> are \<^verbatim>\<open>UNIQUE\<close> in \<^verbatim>\<open>users\<close>, \<^verbatim>\<open>id\<close> is the primary key
  of \<^verbatim>\<open>contacts\<close>.
\<close>

record user_row =
  u_id :: string
  u_telegram_id :: string
  u_anonymous_id :: string
  u_name :: "string option"
  u_status :: "string option"
  u_gender :: "string option"
  u_avatar_url :: "string option"
  u_notifications_enabled :: int
  u_created_at :: string

record contact_row =
  c_id :: string
  c_user_id :: string
  c_contact_anonymous_id :: string
  c_added_at :: string

record database =
  users :: "user_row list"
  contacts :: "contact_row list"

datatype failure = HTTPException nat string | IntegrityError

text \<open>
  \<^verbatim>\<open>add_contact\<close>. \<^verbatim>\<open>fetchone\<close> gives the first row that matches. The new row's
  \<^verbatim>\<open>id\<close> (sixteen hex digits of a SHA-256 over the user id, the target and the
  clock) and \<^verbatim>\<open>added_at\<close> (the clock) are taken as given; an \<^verbatim>\<open>id\<close> already in
  the table makes the \<^verbatim>\<open>INSERT\<close> raise, and nothing is committed. An exception leaves
  the database as it was.
\<close>

definition add_contact :: "string \<Rightarrow> string \<Rightarrow> string \<Rightarrow> string \<Rightarrow> database \<Rightarrow> (failure + json) \<times> database" where
  "add_contact telegram_id target_anonymous_id contact_id added_at db =
     (case find (\<lambda>u. u_telegram_id u = telegram_id) (users db) of
        None \<Rightarrow> (Inl (HTTPException 404 ''User not found''), db)
      | Some user \<Rightarrow>
          (case find (\<lambda>u. u_anonymous_id u = target_anonymous_id) (users db) of
             None \<Rightarrow> (Inl (HTTPException 404 ''Target user not found''), db)
           | Some target \<Rightarrow>
               if u_anonymous_id user = target_anonymous_id then
                 (Inl (HTTPException 400 ''Cannot add yourself''), db)
               else
                 (case find (\<lambda>c. c_user_id c = u_id user \<and>
                                   c_contact_anonymous_id c = target_anonymous_id) (contacts db) of
                    Some c \<Rightarrow> (Inl (HTTPException 400 ''Contact already added''), db)
                  | None \<Rightarrow>
                      if contact_id \<in> set (map c_id (contacts db)) then (Inl IntegrityError, db)
                      else
                        (Inr (JObj [(''message'', JStr ''Contact added''),
                                    (''contact_id'', JStr contact_id)]),
                         db\<lparr>contacts := contacts db @
                              [\<lparr>c_id = contact_id, c_user_id = u_id user,
                                c_contact_anonymous_id = target_anonymous_id,
                                c_added_at = added_at\<rparr>]\<rparr>))))"

text \<open>A database used as an example.\<close>

definition alice :: user_row where
  "alice =
     \<lparr>u_id = ''aaaa'', u_telegram_id = ''111'', u_anonymous_id = ''1234567'', u_name = None,
      u_status = None, u_gender = None, u_avatar_url = None, u_notifications_enabled = 1,
      u_created_at = ''2024-01-01T00:00:00+00:00''\<rparr>"

definition bob :: user_row where
  "bob =
     \<lparr>u_id = ''bbbb'', u_telegram_id = ''222'', u_anonymous_id = ''7654321'', u_name = None,
      u_status = None, u_gender = None, u_avatar_url = None, u_notifications_enabled = 1,
      u_created_at = ''2024-01-02T00:00:00+00:00''\<rparr>"

definition two_users :: database where
  "two_users = \<lparr>users = [alice, bob], contacts = []\<rparr>"

section \<open>Properties\<close>

subsection \<open>What sending leaves alone\<close>

lemma send_json_cm [simp]:
  "active_connections (snd (send_json ws m w)) = active_connections w"
  "typing_users (snd (send_json ws m w)) = typing_users w"
  "net (snd (send_json ws m w)) = net w"
  by (simp_all add: send_json_def Let_def)

lemma broadcast_to_cm [simp]:
  "active_connections (broadcast_to u m items w) = active_connections w"
  "typing_users (broadcast_to u m items w) = typing_users w"
  "net (broadcast_to u m items w) = net w"
  by (induction u m items w rule: broadcast_to.induct) simp_all

lemma broadcast_status_cm [simp]:
  "active_connections (broadcast_status u st w) = active_connections w"
  "typing_users (broadcast_status u st w) = typing_users w"
  by (simp_all add: broadcast_status_def)

lemma keys_dict_set:
  "map fst (dict_set k v d) = (if k \<in> set (map fst d) then map fst d else map fst d @ [k])"
  by (induction k v d rule: dict_set.induct) force+

lemma map_of_dict_set: "map_of (dict_set k v d) = (map_of d)(k \<mapsto> v)"
  by (induction k v d rule: dict_set.induct) (auto simp: fun_eq_iff)

lemma keys_dict_del: "map fst (dict_del k d) = filter (\<lambda>k'. k' \<noteq> k) (map fst d)"
  by (simp add: dict_del_def filter_map comp_def)

lemma dict_del_absent: "k \<notin> set (map fst d) \<Longrightarrow> dict_del k d = d"
  unfolding dict_del_def by (rule filter_True) auto

lemma active_connections_connect [simp]:
  "active_connections (connect u h w) = dict_set u h (active_connections w)"
  by (simp add: connect_def Let_def)

lemma active_connections_disconnect [simp]:
  "active_connections (disconnect u w) = dict_del u (active_connections w)"
  by (simp add: disconnect_def Let_def dict_del_absent)

lemma distinct_registry_calls:
  "distinct (map fst (active_connections w)) \<Longrightarrow>
   distinct (map fst (active_connections (registry_calls cs w)))"
  by (induction cs w rule: registry_calls.induct) (simp_all add: keys_dict_set keys_dict_del)

lemma count_list_distinct: "distinct xs \<Longrightarrow> x \<in> set xs \<Longrightarrow> count_list xs x = 1"
  by (induction xs) (auto simp: count_list_0_iff)

subsection \<open>The branches of the loop body\<close>

lemma send_json_fst: "fst (send_json ws m w) = net w (length (wire w))"
  by (simp add: send_json_def Let_def)

lemma send_json_eq: "send_json ws m w = (r, w') \<Longrightarrow> typing_users w' = typing_users w \<and> active_connections w' = active_connections w"
  by (auto simp: send_json_def Let_def)

lemma send_to_user_cm:
  "send_to_user u m w = (r, w') \<Longrightarrow>
   typing_users w' = typing_users w \<and> active_connections w' = active_connections w"
  by (auto simp: send_to_user_def send_json_def Let_def
      split: option.splits json.splits send_result.splits)

lemma typing_users_disconnect:
  "typing_users (disconnect u w) =
     (if u \<in> set (map fst (active_connections w))
      then map_option (\<lambda>recipients. recipients - {u}) \<circ> typing_users w else typing_users w)"
  by (simp add: disconnect_def Let_def)

lemma typing_users_connect [simp]: "typing_users (connect u h w) = typing_users w"
  by (simp add: connect_def Let_def)

lemma dom_typing_disconnect: "dom (typing_users (disconnect u w)) = dom (typing_users w)"
  by (auto simp: typing_users_disconnect dom_def)

lemma set_typing_Inr:
  "set_typing S R b w = Inr w' \<Longrightarrow>
   \<exists>k. dict_key R = Some k \<and>
     typing_users w' = (typing_users w)(k \<mapsto>
        (let s = (case typing_users w k of None \<Rightarrow> {} | Some s \<Rightarrow> s)
         in if b then insert S s else s - {S})) \<and>
     active_connections w' = active_connections w"
  by (auto simp: set_typing_def Let_def split: option.splits)

lemma set_typing_dom:
  "set_typing S R b w = Inr w' \<Longrightarrow> dom (typing_users w) \<subseteq> dom (typing_users w')"
  by (drule set_typing_Inr) auto

lemma dispatch_not_dict:
  "\<forall>d. data \<noteq> JObj d \<Longrightarrow> dispatch ws A now data w = (Some AttributeError, w)"
  by (cases data) (simp_all add: dispatch_def)

lemma dispatch_message:
  "get d ''type'' JNull = JStr ''message'' \<Longrightarrow>
   dispatch ws A now (JObj d) w =
     (case get d ''text'' (JStr []) of
        JStr s \<Rightarrow>
          if truthy (get d ''recipient_id'' JNull) \<and> strip s \<noteq> [] then
            (case set_typing A (get d ''recipient_id'' JNull) False w of
               Inl e \<Rightarrow> (Some e, w)
             | Inr w1 \<Rightarrow>
                 (case send_to_user (get d ''recipient_id'' JNull) (message_event A (strip s) now) w1 of
                    (Inl e, w2) \<Rightarrow> (Some e, w2)
                  | (Inr sent, w2) \<Rightarrow>
                      (case send_json ws (message_sent_event (get d ''recipient_id'' JNull) sent now) w2 of
                         (Sent, w3) \<Rightarrow> (None, w3)
                       | (Raises e, w3) \<Rightarrow> (Some e, w3))))
          else (None, w)
      | _ \<Rightarrow> (Some AttributeError, w))"
  by (simp add: dispatch_def Let_def split: json.splits)

lemma dispatch_typing:
  "get d ''type'' JNull = JStr ''typing'' \<Longrightarrow>
   dispatch ws A now (JObj d) w =
     (if truthy (get d ''recipient_id'' JNull) then
        (case set_typing A (get d ''recipient_id'' JNull) (truthy (get d ''is_typing'' (JBool True))) w of
           Inl e \<Rightarrow> (Some e, w)
         | Inr w1 \<Rightarrow>
             (case send_to_user (get d ''recipient_id'' JNull)
                     (typing_event A (get d ''is_typing'' (JBool True))) w1 of
                (Inl e, w2) \<Rightarrow> (Some e, w2)
              | (Inr sent, w2) \<Rightarrow> (None, w2)))
      else (None, w))"
  by (simp add: dispatch_def Let_def)

lemma dispatch_ping:
  "get d ''type'' JNull = JStr ''ping'' \<Longrightarrow>
   dispatch ws A now (JObj d) w =
     (case send_json ws pong_event w of
        (Sent, w1) \<Rightarrow> (None, w1)
      | (Raises e, w1) \<Rightarrow> (Some e, w1))"
  by (simp add: dispatch_def Let_def)

lemma dispatch_other:
  "get d ''type'' JNull \<noteq> JStr ''message'' \<Longrightarrow> get d ''type'' JNull \<noteq> JStr ''typing'' \<Longrightarrow>
   get d ''type'' JNull \<noteq> JStr ''ping'' \<Longrightarrow> dispatch ws A now (JObj d) w = (None, w)"
  by (simp add: dispatch_def Let_def)

lemma dispatch_cases:
  obtains (not_dict) "\<forall>d. data \<noteq> JObj d"
  | (message) d where "data = JObj d" "get d ''type'' JNull = JStr ''message''"
  | (typing) d where "data = JObj d" "get d ''type'' JNull = JStr ''typing''"
  | (ping) d where "data = JObj d" "get d ''type'' JNull = JStr ''ping''"
  | (other) d where "data = JObj d" "get d ''type'' JNull \<noteq> JStr ''message''"
      "get d ''type'' JNull \<noteq> JStr ''typing''" "get d ''type'' JNull \<noteq> JStr ''ping''"
  by (cases data) auto

lemma dispatch_dom:
  "dom (typing_users w) \<subseteq> dom (typing_users (snd (dispatch ws A now data w)))"
proof (cases data rule: dispatch_cases)
  case not_dict
  then show ?thesis by (simp add: dispatch_not_dict)
next
  case (message d)
  then show ?thesis
    by (auto simp: dispatch_message
        dest!: set_typing_dom send_to_user_cm send_json_eq
        split: json.splits sum.splits prod.splits send_result.splits)
next
  case (typing d)
  then show ?thesis
    by (auto simp: dispatch_typing
        dest!: set_typing_dom send_to_user_cm
        split: sum.splits prod.splits)
next
  case (ping d)
  then show ?thesis
    by (auto simp: dispatch_ping dest!: send_json_eq split: prod.splits send_result.splits)
next
  case (other d)
  then show ?thesis by (simp add: dispatch_other)
qed

lemma on_exception_dom:
  "dom (typing_users (on_exception e A w)) = dom (typing_users w)"
  by (simp add: on_exception_def dom_typing_disconnect)

lemma websocket_loop_dom:
  "dom (typing_users w) \<subseteq> dom (typing_users (snd (websocket_loop ws A rounds w)))"
proof (induction ws A rounds w rule: websocket_loop.induct)
  case (1 websocket anonymous_id w)
  show ?case by simp
next
  case (2 websocket anonymous_id now e rounds w)
  show ?case by (simp add: on_exception_dom)
next
  case (3 websocket anonymous_id now data rounds w)
  obtain r w1 where d: "dispatch websocket anonymous_id now data w = (r, w1)"
    by (cases "dispatch websocket anonymous_id now data w")
  have s: "dom (typing_users w) \<subseteq> dom (typing_users w1)"
    using dispatch_dom [of w websocket anonymous_id now data] d by simp
  show ?case
  proof (cases r)
    case None
    have "dom (typing_users w1) \<subseteq> dom (typing_users (snd (websocket_loop websocket anonymous_id rounds w1)))"
      using 3 d None by simp
    with d s None show ?thesis by auto
  next
    case (Some e)
    with d s show ?thesis by (simp add: on_exception_dom)
  qed
qed

subsection \<open>The presence registry\<close>

text \<open>
  Claim C6. Whatever run of \<^verbatim>\<open>connect\<close> and \<^verbatim>\<open>disconnect\<close> calls the manager
  has gone through since process start, \<^verbatim>\<open>get_online_users\<close> lists no id twice.
  Connecting id \<open>A\<close> twice in a row leaves \<open>A\<close> listed exactly once and online, with
  the second handle in place of the first, and the list is the one the first connect left.
\<close>

theorem registry_one_entry_per_id:
  "distinct (get_online_users (registry_calls cs (world_init transport))) \<and>
   (let w = registry_calls cs (world_init transport);
        w2 = connect A h2 (connect A h1 w)
    in count_list (get_online_users w2) A = 1 \<and> is_online A w2 \<and>
       map_of (active_connections w2) A = Some h2 \<and>
       get_online_users w2 = get_online_users (connect A h1 w))"
proof -
  define w where "w = registry_calls cs (world_init transport)"
  define w2 where "w2 = connect A h2 (connect A h1 w)"
  have d: "distinct (map fst (active_connections w))"
    unfolding w_def by (rule distinct_registry_calls) (simp add: world_init_def)
  have k: "map fst (active_connections w2) = map fst (active_connections (connect A h1 w))"
    by (simp add: w2_def keys_dict_set)
  have d2: "distinct (map fst (active_connections w2))"
    using d by (simp add: w2_def keys_dict_set)
  have m: "A \<in> set (map fst (active_connections w2))"
    by (simp add: w2_def keys_dict_set)
  have c: "count_list (map fst (active_connections w2)) A = 1"
    by (rule count_list_distinct [OF d2 m])
  have h: "map_of (active_connections w2) A = Some h2"
    by (simp add: w2_def map_of_dict_set)
  show ?thesis
    using d k m c h unfolding get_online_users_def is_online_def Let_def w_def w2_def
    by blast
qed

subsection \<open>The typing tracker\<close>

text \<open>
  Claim C10. \<^verbatim>\<open>set_typing\<close> with \<^verbatim>\<open>is_typing\<close> false for a recipient that has no
  entry creates the entry, holding the empty set. No operation removes a recipient key
  from \<^verbatim>\<open>typing_users\<close>: the keys present before \<^verbatim>\<open>set_typing\<close>, \<^verbatim>\<open>connect\<close>,
  \<^verbatim>\<open>disconnect\<close>, \<^verbatim>\<open>broadcast_status\<close>, \<^verbatim>\<open>send_to_user\<close>, one round of the
  loop body or a whole run of the endpoint are present after it.
\<close>

theorem typing_keys_persist:
  "(dict_key R = Some k \<and> typing_users w k = None \<longrightarrow>
      (\<exists>w'. set_typing S R False w = Inr w' \<and> typing_users w' k = Some {})) \<and>
   (\<forall>w'. set_typing S R b w = Inr w' \<longrightarrow> dom (typing_users w) \<subseteq> dom (typing_users w')) \<and>
   dom (typing_users w) \<subseteq> dom (typing_users (connect u h w)) \<and>
   dom (typing_users w) \<subseteq> dom (typing_users (disconnect u w)) \<and>
   dom (typing_users w) \<subseteq> dom (typing_users (broadcast_status u st w)) \<and>
   dom (typing_users w) \<subseteq> dom (typing_users (snd (send_to_user R m w))) \<and>
   dom (typing_users w) \<subseteq> dom (typing_users (snd (dispatch h u now data w))) \<and>
   dom (typing_users w) \<subseteq> dom (typing_users (snd (websocket_endpoint h u rounds w)))"
proof -
  have a: "dict_key R = Some k \<and> typing_users w k = None \<longrightarrow>
      (\<exists>w'. set_typing S R False w = Inr w' \<and> typing_users w' k = Some {})"
    by (simp add: set_typing_def Let_def)
  have b: "\<forall>w'. set_typing S R b w = Inr w' \<longrightarrow> dom (typing_users w) \<subseteq> dom (typing_users w')"
    using set_typing_dom by blast
  have c: "dom (typing_users w) \<subseteq> dom (typing_users (snd (send_to_user R m w)))"
    using send_to_user_cm [of R m w] by (cases "send_to_user R m w") simp
  have d: "dom (typing_users w) \<subseteq> dom (typing_users (snd (websocket_endpoint h u rounds w)))"
    using websocket_loop_dom [of "connect u h w" h u rounds]
    by (simp add: websocket_endpoint_def)
  show ?thesis
    using a b c d dispatch_dom [of w h u now data]
    by (simp add: dom_typing_disconnect)
qed

theorem typing_keys_persist_witness:
  "dict_key (JStr ''7654321'') = Some (JStr ''7654321'') \<and>
   typing_users (world_init (\<lambda>k. Sent)) (JStr ''7654321'') = None \<and>
   (\<exists>w'. set_typing ''1234567'' (JStr ''7654321'') False (world_init (\<lambda>k. Sent)) = Inr w' \<and>
         typing_users w' (JStr ''7654321'') = Some {} \<and>
         dom (typing_users (world_init (\<lambda>k. Sent))) \<subseteq> dom (typing_users w'))"
proof -
  have k: "dict_key (JStr ''7654321'') = Some (JStr ''7654321'')" by simp
  have n: "typing_users (world_init (\<lambda>k. Sent)) (JStr ''7654321'') = None"
    by (simp add: world_init_def)
  note t = typing_keys_persist [of "JStr ''7654321''" "JStr ''7654321''" "world_init (\<lambda>k. Sent)"
      "''1234567''" False "''1234567''" 0 "''online''" JNull "''now''" JNull "[]"]
  from t [THEN conjunct1] k n obtain w' where
    w': "set_typing ''1234567'' (JStr ''7654321'') False (world_init (\<lambda>k. Sent)) = Inr w'"
      "typing_users w' (JStr ''7654321'') = Some {}"
    by auto
  from t [THEN conjunct2, THEN conjunct1] w'(1)
  have "dom (typing_users (world_init (\<lambda>k. Sent))) \<subseteq> dom (typing_users w')"
    by auto
  with k n w' show ?thesis by auto
qed

subsection \<open>Unregistering\<close>

text \<open>The definitions a run on concrete input is evaluated with.\<close>

lemmas endpoint_defs =
  websocket_endpoint_def dispatch_def on_exception_def connect_def disconnect_def
  broadcast_status_def status_event_def send_json_def send_to_user_def set_typing_def
  get_def message_event_def message_sent_event_def typing_event_def pong_event_def
  world_init_def dict_del_def is_online_def get_online_users_def Let_def

lemma map_of_dict_del: "map_of (dict_del k d) k' = (if k' = k then None else map_of d k')"
  by (induction d) (auto simp: dict_del_def)

text \<open>
  Claim C4, as stated, fails: \<^verbatim>\<open>disconnect\<close> purges the typing sets inside the
  \<^verbatim>\<open>if user_id in self.active_connections\<close> guard only. With no connection
  registered for \<open>1234567\<close> and \<open>1234567\<close> in the typing set of \<open>7654321\<close>,
  \<^verbatim>\<open>disconnect("1234567")\<close> leaves \<open>1234567\<close> in that set.
\<close>

theorem disconnect_unregistered_keeps_typing:
  "\<not> is_online ''1234567'' (disconnect ''1234567'' stale_typing_world) \<and>
   typing_users (disconnect ''1234567'' stale_typing_world) (JStr ''7654321'') = Some {''1234567''}"
  by (simp add: disconnect_def stale_typing_world_def is_online_def)

text \<open>
  Such a state is reached through the endpoint: two connections open under the same id,
  the second closes (removing the entry), the first then signals typing and closes.
\<close>

lemma stale_typing_reachable:
  "typing_users
     (snd (websocket_loop 1 ''1234567''
             [(''t2'', Data (JObj [(''type'', JStr ''typing''), (''recipient_id'', JStr ''7654321'')])),
              (''t3'', Raised WebSocketDisconnect)]
        (snd (websocket_endpoint 2 ''1234567'' [(''t1'', Raised WebSocketDisconnect)]
           (snd (websocket_endpoint 1 ''1234567'' [] (world_init (\<lambda>k. Sent))))))))
     (JStr ''7654321'') = Some {''1234567''}"
  by (simp add: endpoint_defs)

text \<open>
  Claim C4, amended. If the id is registered, \<^verbatim>\<open>disconnect\<close> removes its presence
  entry and nothing else from the registry, and takes the id out of every typing set, so
  that afterwards it is in none. If the id is not registered, \<^verbatim>\<open>disconnect\<close> changes
  nothing at all, the typing sets included.
\<close>

theorem disconnect_registered_purges:
  "(is_online A w \<longrightarrow>
      \<not> is_online A (disconnect A w) \<and>
      (\<forall>R s. typing_users (disconnect A w) R = Some s \<longrightarrow> A \<notin> s) \<and>
      (\<forall>R. typing_users (disconnect A w) R = map_option (\<lambda>s. s - {A}) (typing_users w R)) \<and>
      (\<forall>B. map_of (active_connections (disconnect A w)) B =
             (if B = A then None else map_of (active_connections w) B))) \<and>
   (\<not> is_online A w \<longrightarrow> disconnect A w = w)"
proof -
  have absent: "disconnect A w = w" if "\<not> is_online A w"
    using that by (simp add: is_online_def disconnect_def)
  have gone: "\<not> is_online A (disconnect A w)"
    by (simp add: is_online_def keys_dict_del)
  have conns: "map_of (active_connections (disconnect A w)) B =
      (if B = A then None else map_of (active_connections w) B)" for B
    by (simp add: map_of_dict_del)
  have purge: "typing_users (disconnect A w) R = map_option (\<lambda>s. s - {A}) (typing_users w R)"
    if "is_online A w" for R
    using that by (simp add: is_online_def typing_users_disconnect)
  have none: "A \<notin> s" if "is_online A w" "typing_users (disconnect A w) R = Some s" for R s
    using that(2) purge [OF that(1), of R] by (cases "typing_users w R") auto
  show ?thesis
    using absent gone conns purge none by blast
qed


theorem disconnect_registered_purges_witness:
  "is_online ''1234567'' online_typing_world \<and>
   \<not> is_online ''1234567'' (disconnect ''1234567'' online_typing_world) \<and>
   typing_users (disconnect ''1234567'' online_typing_world) (JStr ''7654321'') = Some {} \<and>
   map_of (active_connections (disconnect ''1234567'' online_typing_world)) ''7654321'' = Some 2 \<and>
   \<not> is_online ''1234567'' stale_typing_world \<and>
   disconnect ''1234567'' stale_typing_world = stale_typing_world"
proof -
  have on: "is_online ''1234567'' online_typing_world"
    by (simp add: is_online_def online_typing_world_def)
  have off: "\<not> is_online ''1234567'' stale_typing_world"
    by (simp add: is_online_def stale_typing_world_def)
  note a = disconnect_registered_purges [of "''1234567''" online_typing_world, THEN conjunct1, THEN mp, OF on]
  note b = disconnect_registered_purges [of "''1234567''" stale_typing_world, THEN conjunct2, THEN mp, OF off]
  note a1 = a [THEN conjunct1]
  note a3 = a [THEN conjunct2, THEN conjunct2, THEN conjunct1, THEN spec, of "JStr ''7654321''"]
  note a4 = a [THEN conjunct2, THEN conjunct2, THEN conjunct2, THEN spec, of "''7654321''"]
  have t: "typing_users (disconnect ''1234567'' online_typing_world) (JStr ''7654321'') = Some {}"
    unfolding a3 by (simp add: online_typing_world_def)
  have c: "map_of (active_connections (disconnect ''1234567'' online_typing_world)) ''7654321'' = Some 2"
    unfolding a4 by (simp add: online_typing_world_def)
  show ?thesis by (intro conjI on a1 t c off b)
qed

subsection \<open>The loop body, round by round\<close>

lemma strip_blank: "\<forall>c\<in>set s. is_space c \<Longrightarrow> strip s = []"
proof -
  assume "\<forall>c\<in>set s. is_space c"
  then have blank: "dropWhile is_space s = []"
    by (induction s) simp_all
  show ?thesis unfolding strip_def blank by simp
qed

lemma loop_continues:
  "dispatch ws A now data w = (None, w1) \<Longrightarrow>
   websocket_loop ws A ((now, Data data) # rounds) w = websocket_loop ws A rounds w1"
  by simp

lemma loop_closes:
  "dispatch ws A now data w = (Some e, w1) \<Longrightarrow>
   websocket_loop ws A ((now, Data data) # rounds) w = (CLOSED, on_exception e A w1)"
  by simp

text \<open>
  Claim C8. A \<^verbatim>\<open>message\<close> event whose \<^verbatim>\<open>text\<close> is a string of white space only
  leaves the loop body with the world as it was: no \<^verbatim>\<open>send_json\<close> call is made,
  neither to the recipient nor to the sender, the typing sets are untouched, and the loop
  goes on to the next round.
\<close>

theorem whitespace_message_dropped:
  assumes "get d ''type'' JNull = JStr ''message''"
    and "map_of d ''text'' = Some (JStr s)"
    and "\<forall>c\<in>set s. is_space c"
  shows "dispatch ws A now (JObj d) w = (None, w) \<and>
         websocket_loop ws A ((now, Data (JObj d)) # rounds) w = websocket_loop ws A rounds w"
proof -
  have t: "get d ''text'' (JStr []) = JStr s"
    using assms(2) by (simp add: get_def)
  have "dispatch ws A now (JObj d) w = (None, w)"
    using assms(1) t strip_blank [OF assms(3)] by (simp add: dispatch_message)
  then show ?thesis by (simp add: loop_continues)
qed

theorem whitespace_message_dropped_witness:
  "dispatch 1 ''1234567'' ''t1''
     (JObj [(''type'', JStr ''message''), (''recipient_id'', JStr ''7654321''), (''text'', JStr ''   '')])
     chat_world = (None, chat_world)"
proof -
  have "\<forall>c\<in>set ''   ''. is_space c" by (simp add: is_space_def)
  then show ?thesis
    using whitespace_message_dropped [of "[(''type'', JStr ''message''), (''recipient_id'', JStr ''7654321''), (''text'', JStr ''   '')]"
        "''   ''" 1 "''1234567''" "''t1''" chat_world "[]"]
    by (simp add: get_def)
qed

lemma send_to_user_hashable:
  "dict_key R = Some k \<Longrightarrow>
   \<exists>sent w'. send_to_user R m w = (Inr sent, w') \<and> typing_users w' = typing_users w \<and>
     active_connections w' = active_connections w"
  by (auto simp: send_to_user_def send_json_def Let_def
      split: option.splits json.splits send_result.splits)

lemma set_typing_hashable:
  "dict_key R = Some k \<Longrightarrow>
   \<exists>w'. set_typing S R b w = Inr w' \<and>
     typing_users w' = (typing_users w)(k \<mapsto>
        (let s = (case typing_users w k of None \<Rightarrow> {} | Some s \<Rightarrow> s)
         in if b then insert S s else s - {S})) \<and>
     active_connections w' = active_connections w \<and> wire w' = wire w \<and> net w' = net w \<and>
     logged w' = logged w"
  by (auto simp: set_typing_def Let_def split: option.splits)

lemma on_exception_typing:
  "typing_users w k = Some s \<Longrightarrow>
   \<exists>s'. typing_users (on_exception e A w) k = Some s' \<and> s' \<subseteq> s"
  by (auto simp: on_exception_def typing_users_disconnect)

lemma dispatch_typing_sets:
  assumes "get d ''type'' JNull = JStr ''typing''" "truthy (get d ''recipient_id'' JNull)"
    and "dict_key (get d ''recipient_id'' JNull) = Some k"
  shows "\<exists>w1. dispatch ws S now (JObj d) w = (None, w1) \<and>
     typing_users w1 = (typing_users w)(k \<mapsto>
        (let s = (case typing_users w k of None \<Rightarrow> {} | Some s \<Rightarrow> s)
         in if truthy (get d ''is_typing'' (JBool True)) then insert S s else s - {S}))"
proof -
  obtain w1 where w1: "set_typing S (get d ''recipient_id'' JNull) (truthy (get d ''is_typing'' (JBool True))) w = Inr w1"
    "typing_users w1 = (typing_users w)(k \<mapsto>
        (let s = (case typing_users w k of None \<Rightarrow> {} | Some s \<Rightarrow> s)
         in if truthy (get d ''is_typing'' (JBool True)) then insert S s else s - {S}))"
    using set_typing_hashable [OF assms(3)] by blast
  obtain sent w2 where w2: "send_to_user (get d ''recipient_id'' JNull)
       (typing_event S (get d ''is_typing'' (JBool True))) w1 = (Inr sent, w2)"
    "typing_users w2 = typing_users w1"
    using send_to_user_hashable [OF assms(3)] by blast
  show ?thesis
    using assms(1,2) w1 w2 by (simp add: dispatch_typing)
qed

lemma dispatch_message_clears:
  assumes "get d ''type'' JNull = JStr ''message''" "truthy (get d ''recipient_id'' JNull)"
    and "dict_key (get d ''recipient_id'' JNull) = Some k"
    and "get d ''text'' (JStr []) = JStr s" "strip s \<noteq> []"
  shows "\<exists>r w4. dispatch ws S now (JObj d) w = (r, w4) \<and>
     typing_users w4 = (typing_users w)(k \<mapsto>
        (case typing_users w k of None \<Rightarrow> {} | Some s \<Rightarrow> s) - {S})"
proof -
  let ?R = "get d ''recipient_id'' JNull"
  obtain w1 where w1: "set_typing S ?R False w = Inr w1"
    "typing_users w1 = (typing_users w)(k \<mapsto> (case typing_users w k of None \<Rightarrow> {} | Some s \<Rightarrow> s) - {S})"
    using set_typing_hashable [OF assms(3), of S False w] by (auto simp: Let_def)
  obtain sent w2 where w2: "send_to_user ?R (message_event S (strip s) now) w1 = (Inr sent, w2)"
    "typing_users w2 = typing_users w1"
    using send_to_user_hashable [OF assms(3)] by blast
  obtain r w3 where w3: "send_json ws (message_sent_event ?R sent now) w2 = (r, w3)"
    by (cases "send_json ws (message_sent_event ?R sent now) w2")
  then have "typing_users w3 = typing_users w2"
    by (simp add: send_json_eq)
  then show ?thesis
    using assms(1,2,4,5) w1 w2 w3 by (cases r) (simp_all add: dispatch_message)
qed

text \<open>
  Claim C7. Let \<open>R\<close> be a recipient id the guards accept (truthy and hashable; every
  non-empty string is). After a \<^verbatim>\<open>typing\<close> event from \<open>S\<close> to \<open>R\<close> with a true
  \<^verbatim>\<open>is_typing\<close>, \<open>S\<close> is in the typing set of \<open>R\<close>; after a following
  \<^verbatim>\<open>message\<close> event from \<open>S\<close> to \<open>R\<close> with a text that is not blank, \<open>S\<close> is
  not, whatever the sends of the message round do, both after the loop body and after the
  loop on the two rounds.
\<close>

theorem message_clears_typing:
  assumes "get d1 ''type'' JNull = JStr ''typing''"
    and "get d1 ''recipient_id'' JNull = R"
    and "truthy (get d1 ''is_typing'' (JBool True))"
    and "get d2 ''type'' JNull = JStr ''message''"
    and "get d2 ''recipient_id'' JNull = R"
    and "get d2 ''text'' (JStr []) = JStr s"
    and "strip s \<noteq> []"
    and "truthy R"
    and "dict_key R = Some k"
  shows "\<exists>w1 s1. dispatch ws S t1 (JObj d1) w = (None, w1) \<and>
           typing_users w1 k = Some s1 \<and> S \<in> s1 \<and>
           (\<exists>s2. typing_users (snd (dispatch ws S t2 (JObj d2) w1)) k = Some s2 \<and> S \<notin> s2) \<and>
           (\<exists>s3. typing_users
                   (snd (websocket_loop ws S [(t1, Data (JObj d1)), (t2, Data (JObj d2))] w)) k = Some s3 \<and>
                 S \<notin> s3)"
proof -
  obtain w1 where w1: "dispatch ws S t1 (JObj d1) w = (None, w1)"
    "typing_users w1 = (typing_users w)(k \<mapsto>
        (let s = (case typing_users w k of None \<Rightarrow> {} | Some s \<Rightarrow> s)
         in if truthy (get d1 ''is_typing'' (JBool True)) then insert S s else s - {S}))"
    using dispatch_typing_sets [of d1 k ws S t1 w] assms(1,2,8,9) by auto
  define s1 where "s1 = insert S (case typing_users w k of None \<Rightarrow> {} | Some s \<Rightarrow> s)"
  have k1: "typing_users w1 k = Some s1" "S \<in> s1"
    using w1(2) assms(3) by (simp_all add: s1_def Let_def)
  obtain r w4 where w4: "dispatch ws S t2 (JObj d2) w1 = (r, w4)"
    "typing_users w4 = (typing_users w1)(k \<mapsto>
        (case typing_users w1 k of None \<Rightarrow> {} | Some s \<Rightarrow> s) - {S})"
    using dispatch_message_clears [of d2 k s ws S t2 w1] assms(4,5,6,7,8,9) by auto
  have k4: "typing_users w4 k = Some (s1 - {S})"
    using w4(2) k1(1) by simp
  have two: "\<exists>s2. typing_users (snd (dispatch ws S t2 (JObj d2) w1)) k = Some s2 \<and> S \<notin> s2"
    using w4(1) k4 by simp
  have loop: "\<exists>s3. typing_users
       (snd (websocket_loop ws S [(t1, Data (JObj d1)), (t2, Data (JObj d2))] w)) k = Some s3 \<and> S \<notin> s3"
  proof (cases r)
    case None
    then show ?thesis using w1(1) w4(1) k4 by simp
  next
    case (Some e)
    obtain s' where "typing_users (on_exception e S w4) k = Some s'" "s' \<subseteq> s1 - {S}"
      using on_exception_typing [OF k4] by blast
    then show ?thesis using Some w1(1) w4(1) by auto
  qed
  show ?thesis
    using w1(1) k1 two loop by blast
qed

theorem message_clears_typing_witness:
  "get [(''type'', JStr ''typing''), (''recipient_id'', JStr ''7654321''), (''is_typing'', JBool True)]
      ''type'' JNull = JStr ''typing'' \<and>
   strip ''hi'' \<noteq> [] \<and> truthy (JStr ''7654321'') \<and>
   (\<exists>s3. typing_users
           (snd (websocket_loop 1 ''1234567''
              [(''t1'', Data (JObj [(''type'', JStr ''typing''), (''recipient_id'', JStr ''7654321''),
                                    (''is_typing'', JBool True)])),
               (''t2'', Data (JObj [(''type'', JStr ''message''), (''recipient_id'', JStr ''7654321''),
                                    (''text'', JStr ''hi'')]))]
              chat_world)) (JStr ''7654321'') = Some s3 \<and>
         ''1234567'' \<notin> s3)"
proof -
  let ?d1 = "[(''type'', JStr ''typing''), (''recipient_id'', JStr ''7654321''), (''is_typing'', JBool True)]"
  let ?d2 = "[(''type'', JStr ''message''), (''recipient_id'', JStr ''7654321''), (''text'', JStr ''hi'')]"
  have h1: "get ?d1 ''type'' JNull = JStr ''typing''" by (simp add: get_def)
  have h2: "get ?d1 ''recipient_id'' JNull = JStr ''7654321''" by (simp add: get_def)
  have h3: "truthy (get ?d1 ''is_typing'' (JBool True))" by (simp add: get_def)
  have h4: "get ?d2 ''type'' JNull = JStr ''message''" by (simp add: get_def)
  have h5: "get ?d2 ''recipient_id'' JNull = JStr ''7654321''" by (simp add: get_def)
  have h6: "get ?d2 ''text'' (JStr []) = JStr ''hi''" by (simp add: get_def)
  have h7: "strip ''hi'' \<noteq> []" by (simp add: strip_def is_space_def)
  have h8: "truthy (JStr ''7654321'')" by simp
  have h9: "dict_key (JStr ''7654321'') = Some (JStr ''7654321'')" by simp
  from message_clears_typing [OF h1 h2 h3 h4 h5 h6 h7 h8 h9, of 1 "''1234567''" "''t1''" chat_world "''t2''"]
  have "\<exists>s3. typing_users
           (snd (websocket_loop 1 ''1234567'' [(''t1'', Data (JObj ?d1)), (''t2'', Data (JObj ?d2))]
              chat_world)) (JStr ''7654321'') = Some s3 \<and> ''1234567'' \<notin> s3"
    by blast
  with h1 h7 h8 show ?thesis by blast
qed

subsection \<open>Receipts\<close>

text \<open>
  Claim C1, as stated, fails: a \<^verbatim>\<open>recipient_id\<close> that is present but empty does not
  pass \<^verbatim>\<open>if recipient_id and text\<close>. The event
  \<^verbatim>\<open>{"type": "message", "recipient_id": "", "text": "hi"}\<close> is dropped: nothing is
  sent, and no receipt.
\<close>

theorem empty_recipient_no_receipt:
  "map_of [(''type'', JStr ''message''), (''recipient_id'', JStr ''''), (''text'', JStr ''hi'')]
      ''recipient_id'' = Some (JStr '''') \<and>
   strip ''hi'' = ''hi'' \<and>
   dispatch 1 ''1234567'' ''t1''
     (JObj [(''type'', JStr ''message''), (''recipient_id'', JStr ''''), (''text'', JStr ''hi'')])
     chat_world = (None, chat_world) \<and>
   wire chat_world = []"
  by (simp add: dispatch_def get_def strip_def is_space_def chat_world_def)

text \<open>
  Claim C1, amended. For a \<^verbatim>\<open>message\<close> event whose \<^verbatim>\<open>recipient_id\<close> is truthy
  and hashable (every non-empty string is) and whose \<^verbatim>\<open>text\<close> is a string that is
  not blank, the loop body calls \<^verbatim>\<open>send_json\<close> at most once for the recipient and
  then exactly once, on the connection's own socket, with a \<^verbatim>\<open>message_sent\<close> receipt.
  The receipt's \<^verbatim>\<open>delivered\<close> is true exactly when the recipient id has an entry in
  \<^verbatim>\<open>active_connections\<close> and the send on that entry's socket returned. The body raises
  exactly what the receipt's send raises.
\<close>

theorem message_receipt:
  assumes "get d ''type'' JNull = JStr ''message''"
    and "get d ''recipient_id'' JNull = R"
    and "truthy R"
    and "dict_key R = Some k"
    and "get d ''text'' (JStr []) = JStr s"
    and "strip s \<noteq> []"
  shows "\<exists>r w'. dispatch ws A now (JObj d) w = (r, w') \<and>
     (let live = (case R of JStr uid \<Rightarrow> map_of (active_connections w) uid | _ \<Rightarrow> None);
          delivered = (live \<noteq> None \<and> net w (length (wire w)) = Sent);
          attempt = (case live of
                       Some h \<Rightarrow> [(h, message_event A (strip s) now, net w (length (wire w)))]
                     | None \<Rightarrow> []);
          receipt = (ws, message_sent_event R delivered now, net w (length (wire w) + length attempt))
      in wire w' = wire w @ attempt @ [receipt] \<and>
         filter (\<lambda>(h, ev, res). event_type ev = JStr ''message_sent'') (attempt @ [receipt]) = [receipt] \<and>
         r = (case net w (length (wire w) + length attempt) of Sent \<Rightarrow> None | Raises e \<Rightarrow> Some e))"
proof -
  obtain w1 where w1: "set_typing A R False w = Inr w1"
    "active_connections w1 = active_connections w" "wire w1 = wire w" "net w1 = net w"
    using set_typing_hashable [OF assms(4), of A False w] by blast
  show ?thesis
  proof (cases "case R of JStr uid \<Rightarrow> map_of (active_connections w) uid | _ \<Rightarrow> None")
    case None
    then have s: "send_to_user R (message_event A (strip s) now) w1 = (Inr False, w1)"
      using assms(4) w1(2) by (cases R) (auto simp: send_to_user_def split: option.splits)
    show ?thesis
      using assms(1,2,3,5,6) w1 s None
      by (auto simp: dispatch_message send_json_def Let_def event_type_def message_sent_event_def get_def
          split: send_result.splits)
  next
    case (Some h)
    then obtain uid where R: "R = JStr uid" "map_of (active_connections w) uid = Some h"
      by (cases R) auto
    let ?r1 = "net w (length (wire w))"
    let ?w2 = "w1\<lparr>wire := wire w1 @ [(h, message_event A (strip s) now, ?r1)]\<rparr>"
    have "\<exists>w2. send_to_user R (message_event A (strip s) now) w1 = (Inr (?r1 = Sent), w2) \<and>
        wire w2 = wire w @ [(h, message_event A (strip s) now, ?r1)] \<and> net w2 = net w"
      using R w1 by (auto simp: send_to_user_def send_json_def Let_def split: send_result.splits)
    then obtain w2 where w2: "send_to_user R (message_event A (strip s) now) w1 = (Inr (?r1 = Sent), w2)"
      "wire w2 = wire w @ [(h, message_event A (strip s) now, ?r1)]" "net w2 = net w"
      by blast
    show ?thesis
      using assms(1,2,3,5,6) w1(1) w2 Some
      by (auto simp: dispatch_message send_json_def Let_def event_type_def message_sent_event_def
          message_event_def get_def split: send_result.splits)
  qed
qed

theorem message_receipt_witness:
  "truthy (JStr ''7654321'') \<and> strip ''  hi  '' \<noteq> [] \<and>
   wire (snd (dispatch 1 ''1234567'' ''t1''
           (JObj [(''type'', JStr ''message''), (''recipient_id'', JStr ''7654321''),
                  (''text'', JStr ''  hi  '')])
           chat_world)) =
     [(2, message_event ''1234567'' ''hi'' ''t1'', Sent),
      (1, message_sent_event (JStr ''7654321'') True ''t1'', Sent)]"
proof -
  let ?d = "[(''type'', JStr ''message''), (''recipient_id'', JStr ''7654321''), (''text'', JStr ''  hi  '')]"
  have h1: "get ?d ''type'' JNull = JStr ''message''" by (simp add: get_def)
  have h2: "get ?d ''recipient_id'' JNull = JStr ''7654321''" by (simp add: get_def)
  have h3: "truthy (JStr ''7654321'')" by simp
  have h4: "dict_key (JStr ''7654321'') = Some (JStr ''7654321'')" by simp
  have h5: "get ?d ''text'' (JStr []) = JStr ''  hi  ''" by (simp add: get_def)
  have h6: "strip ''  hi  '' \<noteq> []" by (simp add: strip_def is_space_def)
  have st: "strip ''  hi  '' = ''hi''" by (simp add: strip_def is_space_def)
  from message_receipt [OF h1 h2 h3 h4 h5 h6, of 1 "''1234567''" "''t1''" chat_world]
  obtain r w' where d: "dispatch 1 ''1234567'' ''t1'' (JObj ?d) chat_world = (r, w')"
    and w: "wire w' = [(2, message_event ''1234567'' ''hi'' ''t1'', Sent),
      (1, message_sent_event (JStr ''7654321'') True ''t1'', Sent)]"
    unfolding st by (auto simp: chat_world_def Let_def)
  show ?thesis using h3 h6 d w by simp
qed

subsection \<open>Payloads that are dropped, and payloads that end the connection\<close>

text \<open>
  Claim C3, as stated, fails for a payload that cannot be decoded: \<^verbatim>\<open>receive_json\<close>
  raises inside the \<^verbatim>\<open>try\<close>, the \<^verbatim>\<open>except Exception\<close> clause unregisters the
  id and the handler returns. The \<^verbatim>\<open>ping\<close> that follows is never answered, while
  the same \<^verbatim>\<open>ping\<close> alone is.
\<close>

theorem decode_failure_closes_connection:
  "websocket_loop 1 ''1234567''
      [(''t1'', Raised JSONDecodeError), (''t2'', Data (JObj [(''type'', JStr ''ping'')]))]
      chat_world =
     (CLOSED,
      chat_world\<lparr>active_connections := [(''7654321'', 2)],
                 logged := [ErrorWebSocket JSONDecodeError, InfoDisconnected ''1234567'' 1]\<rparr>) \<and>
   websocket_loop 1 ''1234567'' [(''t2'', Data (JObj [(''type'', JStr ''ping'')]))] chat_world =
     (OPEN, chat_world\<lparr>wire := [(1, pong_event, Sent)]\<rparr>)"
  by (simp add: endpoint_defs chat_world_def)

text \<open>
  Claim C3, amended. A decoded JSON object is dropped in silence (the world is left as
  it was, and the loop goes on to the next round) when it is a \<^verbatim>\<open>message\<close> whose
  \<^verbatim>\<open>text\<close> is absent or a string and whose \<^verbatim>\<open>recipient_id\<close> is falsy or whose
  trimmed text is empty, a \<^verbatim>\<open>typing\<close> whose \<^verbatim>\<open>recipient_id\<close> is falsy, or carries
  none of the three tags. A read that raises anything but \<^verbatim>\<open>WebSocketDisconnect\<close>,
  and a decoded value that is not an object, end the loop with the id unregistered.
\<close>

theorem incomplete_event_dropped:
  "((get d ''type'' JNull = JStr ''message'' \<and> get d ''text'' (JStr []) = JStr s \<and>
       (\<not> truthy (get d ''recipient_id'' JNull) \<or> strip s = [])) \<or>
     (get d ''type'' JNull = JStr ''typing'' \<and> \<not> truthy (get d ''recipient_id'' JNull)) \<or>
     (get d ''type'' JNull \<noteq> JStr ''message'' \<and> get d ''type'' JNull \<noteq> JStr ''typing'' \<and>
      get d ''type'' JNull \<noteq> JStr ''ping'')
    \<longrightarrow> dispatch ws A now (JObj d) w = (None, w) \<and>
        websocket_loop ws A ((now, Data (JObj d)) # rounds) w = websocket_loop ws A rounds w) \<and>
   (e \<noteq> WebSocketDisconnect
    \<longrightarrow> fst (websocket_loop ws A ((now, Raised e) # rounds) w) = CLOSED \<and>
        \<not> is_online A (snd (websocket_loop ws A ((now, Raised e) # rounds) w))) \<and>
   ((\<forall>d'. data \<noteq> JObj d')
    \<longrightarrow> fst (websocket_loop ws A ((now, Data data) # rounds) w) = CLOSED \<and>
        \<not> is_online A (snd (websocket_loop ws A ((now, Data data) # rounds) w)))"
proof -
  have gone: "\<not> is_online A (on_exception x A v)" for x v
    by (auto simp: on_exception_def is_online_def dict_del_def)
  have a: "dispatch ws A now (JObj d) w = (None, w)"
    if "get d ''type'' JNull = JStr ''message''" "get d ''text'' (JStr []) = JStr s"
      "\<not> truthy (get d ''recipient_id'' JNull) \<or> strip s = []"
    using that by (auto simp: dispatch_message)
  have b: "dispatch ws A now (JObj d) w = (None, w)"
    if "get d ''type'' JNull = JStr ''typing''" "\<not> truthy (get d ''recipient_id'' JNull)"
    using that by (simp add: dispatch_typing)
  have c: "dispatch ws A now (JObj d) w = (None, w)"
    if "get d ''type'' JNull \<noteq> JStr ''message''" "get d ''type'' JNull \<noteq> JStr ''typing''"
      "get d ''type'' JNull \<noteq> JStr ''ping''"
    using that by (rule dispatch_other)
  have l: "websocket_loop ws A ((now, Data (JObj d)) # rounds) w = websocket_loop ws A rounds w"
    if "dispatch ws A now (JObj d) w = (None, w)"
    using that by (rule loop_continues)
  have m: "fst (websocket_loop ws A ((now, Raised e) # rounds) w) = CLOSED \<and>
        \<not> is_online A (snd (websocket_loop ws A ((now, Raised e) # rounds) w))"
    by (simp add: gone)
  have n: "fst (websocket_loop ws A ((now, Data data) # rounds) w) = CLOSED \<and>
        \<not> is_online A (snd (websocket_loop ws A ((now, Data data) # rounds) w))"
    if "\<forall>d'. data \<noteq> JObj d'"
    using that by (simp add: dispatch_not_dict gone)
  show ?thesis
    using a b c l m n by blast
qed

theorem incomplete_event_dropped_witness:
  "get [(''type'', JStr ''message''), (''text'', JStr ''hi'')] ''type'' JNull = JStr ''message'' \<and>
   \<not> truthy (get [(''type'', JStr ''message''), (''text'', JStr ''hi'')] ''recipient_id'' JNull) \<and>
   dispatch 1 ''1234567'' ''t1'' (JObj [(''type'', JStr ''message''), (''text'', JStr ''hi'')]) chat_world =
     (None, chat_world) \<and>
   JSONDecodeError \<noteq> WebSocketDisconnect \<and>
   fst (websocket_loop 1 ''1234567'' [(''t1'', Raised JSONDecodeError)] chat_world) = CLOSED \<and>
   fst (websocket_loop 1 ''1234567'' [(''t1'', Data (JArr []))] chat_world) = CLOSED"
proof -
  let ?d = "[(''type'', JStr ''message''), (''text'', JStr ''hi'')]"
  have h1: "get ?d ''type'' JNull = JStr ''message''" by (simp add: get_def)
  have h2: "get ?d ''text'' (JStr []) = JStr ''hi''" by (simp add: get_def)
  have h3: "\<not> truthy (get ?d ''recipient_id'' JNull)" by (simp add: get_def)
  have h4: "JSONDecodeError \<noteq> WebSocketDisconnect" by simp
  have h5: "\<forall>d'. JArr [] \<noteq> JObj d'" by simp
  note t = incomplete_event_dropped [of ?d "''hi''" 1 "''1234567''" "''t1''" chat_world "[]"
      JSONDecodeError "JArr []"]
  from t [THEN conjunct1] h1 h2 h3
  have a: "dispatch 1 ''1234567'' ''t1'' (JObj ?d) chat_world = (None, chat_world)"
    by blast
  from t [THEN conjunct2, THEN conjunct1] h4
  have b: "fst (websocket_loop 1 ''1234567'' [(''t1'', Raised JSONDecodeError)] chat_world) = CLOSED"
    by blast
  from t [THEN conjunct2, THEN conjunct2] h5
  have c: "fst (websocket_loop 1 ''1234567'' [(''t1'', Data (JArr []))] chat_world) = CLOSED"
    by blast
  show ?thesis by (intro conjI h1 h3 a h4 b c)
qed

text \<open>
  The \<^verbatim>\<open>except Exception\<close> clause calls no \<^verbatim>\<open>send_json\<close>.
\<close>

lemma generic_handler_sends_nothing:
  "e \<noteq> WebSocketDisconnect \<Longrightarrow> wire (on_exception e A w) = wire w"
  by (simp add: on_exception_def disconnect_def Let_def)

text \<open>
  Claim C2 at a failing input. With \<open>1234567\<close> and \<open>7654321\<close> connected, a read on
  the connection of \<open>1234567\<close> that raises \<^verbatim>\<open>JSONDecodeError\<close> is logged and
  unregisters \<open>1234567\<close>, but nothing is sent to \<open>7654321\<close>; the
  \<^verbatim>\<open>except WebSocketDisconnect\<close> clause, on the same world, sends \<open>7654321\<close> the
  \<^verbatim>\<open>offline\<close> status.
\<close>

theorem read_failure_skips_offline_broadcast:
  "websocket_loop 1 ''1234567'' [(''t1'', Raised JSONDecodeError)] chat_world =
     (CLOSED,
      chat_world\<lparr>active_connections := [(''7654321'', 2)],
                 logged := [ErrorWebSocket JSONDecodeError, InfoDisconnected ''1234567'' 1]\<rparr>) \<and>
   wire (snd (websocket_loop 1 ''1234567'' [(''t1'', Raised JSONDecodeError)] chat_world)) = [] \<and>
   websocket_loop 1 ''1234567'' [(''t1'', Raised WebSocketDisconnect)] chat_world =
     (CLOSED,
      chat_world\<lparr>active_connections := [(''7654321'', 2)],
                 wire := [(2, status_event ''1234567'' ''offline'', Sent)],
                 logged := [InfoDisconnected ''1234567'' 1]\<rparr>)"
  by (simp add: endpoint_defs chat_world_def)

subsection \<open>Adding a contact\<close>

lemma find_None_conv: "find P xs = None \<longleftrightarrow> (\<forall>x\<in>set xs. \<not> P x)"
  by (induction xs) auto

lemma find_Some_holds: "find P xs = Some x \<Longrightarrow> x \<in> set xs \<and> P x"
  by (induction xs) (auto split: if_splits)

text \<open>
  Claim C9. For a caller that has a user record: \<^verbatim>\<open>add_contact\<close> rejects a target
  equal to the caller's own anonymous id (400), rejects a target that no user record has
  (404), and rejects a pair (caller, target) that is already in \<^verbatim>\<open>contacts\<close>, each
  time leaving the database as it was. Whenever it answers with success, none of the
  three held, exactly one row for the pair was appended, and a second add of the same
  pair is rejected as a duplicate (400). When none of the three holds and the new row's
  id is fresh, it does answer with success.
\<close>

theorem add_contact_rejections:
  assumes caller: "find (\<lambda>u. u_telegram_id u = telegram_id) (users db) = Some user"
  shows "(u_anonymous_id user = target \<longrightarrow>
            add_contact telegram_id target cid t db =
              (Inl (HTTPException 400 ''Cannot add yourself''), db)) \<and>
         (find (\<lambda>u. u_anonymous_id u = target) (users db) = None \<longrightarrow>
            add_contact telegram_id target cid t db =
              (Inl (HTTPException 404 ''Target user not found''), db)) \<and>
         ((\<exists>c\<in>set (contacts db). c_user_id c = u_id user \<and> c_contact_anonymous_id c = target) \<longrightarrow>
            (\<exists>e. add_contact telegram_id target cid t db = (Inl e, db))) \<and>
         (\<forall>r db'. add_contact telegram_id target cid t db = (Inr r, db') \<longrightarrow>
            u_anonymous_id user \<noteq> target \<and>
            find (\<lambda>u. u_anonymous_id u = target) (users db) \<noteq> None \<and>
            \<not> (\<exists>c\<in>set (contacts db). c_user_id c = u_id user \<and> c_contact_anonymous_id c = target) \<and>
            db' = db\<lparr>contacts := contacts db @
                    [\<lparr>c_id = cid, c_user_id = u_id user, c_contact_anonymous_id = target,
                      c_added_at = t\<rparr>]\<rparr> \<and>
            (\<forall>cid' t'. add_contact telegram_id target cid' t' db' =
               (Inl (HTTPException 400 ''Contact already added''), db'))) \<and>
         (u_anonymous_id user \<noteq> target \<and>
          find (\<lambda>u. u_anonymous_id u = target) (users db) \<noteq> None \<and>
          \<not> (\<exists>c\<in>set (contacts db). c_user_id c = u_id user \<and> c_contact_anonymous_id c = target) \<and>
          cid \<notin> set (map c_id (contacts db)) \<longrightarrow>
            (\<exists>r db'. add_contact telegram_id target cid t db = (Inr r, db')))"
proof -
  let ?dup = "\<lambda>c. c_user_id c = u_id user \<and> c_contact_anonymous_id c = target"
  let ?row = "\<lparr>c_id = cid, c_user_id = u_id user, c_contact_anonymous_id = target, c_added_at = t\<rparr>"
  have self: "add_contact telegram_id target cid t db =
      (Inl (HTTPException 400 ''Cannot add yourself''), db)" if "u_anonymous_id user = target"
  proof -
    have "find (\<lambda>u. u_anonymous_id u = target) (users db) \<noteq> None"
      using find_Some_holds [OF caller] that by (auto simp: find_None_conv)
    then show ?thesis using caller that by (auto simp: add_contact_def)
  qed
  have unknown: "add_contact telegram_id target cid t db =
      (Inl (HTTPException 404 ''Target user not found''), db)"
    if "find (\<lambda>u. u_anonymous_id u = target) (users db) = None"
    using caller that by (simp add: add_contact_def)
  have dup: "\<exists>e. add_contact telegram_id target cid t db = (Inl e, db)"
    if "\<exists>c\<in>set (contacts db). ?dup c"
  proof -
    have "find ?dup (contacts db) \<noteq> None"
      using that by (simp add: find_None_conv)
    then show ?thesis
      using caller by (auto simp: add_contact_def split: option.splits)
  qed
  have ok: "u_anonymous_id user \<noteq> target \<and>
      find (\<lambda>u. u_anonymous_id u = target) (users db) \<noteq> None \<and>
      \<not> (\<exists>c\<in>set (contacts db). ?dup c) \<and>
      db' = db\<lparr>contacts := contacts db @ [?row]\<rparr> \<and>
      (\<forall>cid' t'. add_contact telegram_id target cid' t' db' =
         (Inl (HTTPException 400 ''Contact already added''), db'))"
    if added: "add_contact telegram_id target cid t db = (Inr r, db')" for r db'
  proof -
    from added caller have 1: "u_anonymous_id user \<noteq> target"
      and 2: "find (\<lambda>u. u_anonymous_id u = target) (users db) \<noteq> None"
      and 3: "find ?dup (contacts db) = None"
      and 4: "db' = db\<lparr>contacts := contacts db @ [?row]\<rparr>"
      by (auto simp: add_contact_def split: option.splits if_splits)
    have 5: "find ?dup (contacts db') \<noteq> None"
      by (simp add: 4 find_None_conv)
    have "add_contact telegram_id target cid' t' db' =
        (Inl (HTTPException 400 ''Contact already added''), db')" for cid' t'
      using caller 1 2 5 by (auto simp: add_contact_def 4 split: option.splits)
    with 1 2 3 4 show ?thesis by (simp add: find_None_conv)
  qed
  have fresh: "\<exists>r db'. add_contact telegram_id target cid t db = (Inr r, db')"
    if "u_anonymous_id user \<noteq> target" "find (\<lambda>u. u_anonymous_id u = target) (users db) \<noteq> None"
      "\<not> (\<exists>c\<in>set (contacts db). ?dup c)" "cid \<notin> set (map c_id (contacts db))"
  proof -
    have "find ?dup (contacts db) = None"
      using that(3) by (simp add: find_None_conv)
    then show ?thesis
      using caller that(1,2,4) by (auto simp: add_contact_def split: option.splits)
  qed
  show ?thesis
    using self unknown dup ok fresh by blast
qed


theorem add_contact_rejections_witness:
  "find (\<lambda>u. u_telegram_id u = ''111'') (users two_users) = Some alice \<and>
   add_contact ''111'' ''1234567'' ''c1'' ''t1'' two_users =
     (Inl (HTTPException 400 ''Cannot add yourself''), two_users) \<and>
   add_contact ''111'' ''0000000'' ''c1'' ''t1'' two_users =
     (Inl (HTTPException 404 ''Target user not found''), two_users) \<and>
   (\<exists>r db'. add_contact ''111'' ''7654321'' ''c1'' ''t1'' two_users = (Inr r, db') \<and>
      contacts db' = [\<lparr>c_id = ''c1'', c_user_id = ''aaaa'', c_contact_anonymous_id = ''7654321'',
                       c_added_at = ''t1''\<rparr>] \<and>
      add_contact ''111'' ''7654321'' ''c2'' ''t2'' db' =
        (Inl (HTTPException 400 ''Contact already added''), db'))"
proof -
  have caller: "find (\<lambda>u. u_telegram_id u = ''111'') (users two_users) = Some alice"
    by (simp add: two_users_def alice_def)
  have self: "u_anonymous_id alice = ''1234567''"
    by (simp add: alice_def)
  have unknown: "find (\<lambda>u. u_anonymous_id u = ''0000000'') (users two_users) = None"
    by (simp add: two_users_def alice_def bob_def)
  have fresh: "u_anonymous_id alice \<noteq> ''7654321'' \<and>
      find (\<lambda>u. u_anonymous_id u = ''7654321'') (users two_users) \<noteq> None \<and>
      \<not> (\<exists>c\<in>set (contacts two_users). c_user_id c = u_id alice \<and>
                c_contact_anonymous_id c = ''7654321'') \<and>
      ''c1'' \<notin> set (map c_id (contacts two_users))"
    by (simp add: two_users_def alice_def bob_def)
  note a = add_contact_rejections [OF caller, of "''1234567''" "''c1''" "''t1''", THEN conjunct1, THEN mp, OF self]
  note b = add_contact_rejections [OF caller, of "''0000000''" "''c1''" "''t1''", THEN conjunct2, THEN conjunct1,
      THEN mp, OF unknown]
  note c = add_contact_rejections [OF caller, of "''7654321''" "''c1''" "''t1''"]
  from c [THEN conjunct2, THEN conjunct2, THEN conjunct2, THEN conjunct2, THEN mp, OF fresh]
  obtain r db' where ok: "add_contact ''111'' ''7654321'' ''c1'' ''t1'' two_users = (Inr r, db')"
    by blast
  from c [THEN conjunct2, THEN conjunct2, THEN conjunct2, THEN conjunct1, THEN spec, THEN spec, THEN mp, OF ok]
  have d: "db' = two_users\<lparr>contacts := contacts two_users @
        [\<lparr>c_id = ''c1'', c_user_id = u_id alice, c_contact_anonymous_id = ''7654321'',
          c_added_at = ''t1''\<rparr>]\<rparr>"
    and e: "add_contact ''111'' ''7654321'' ''c2'' ''t2'' db' =
      (Inl (HTTPException 400 ''Contact already added''), db')"
    by blast+
  have f: "contacts db' = [\<lparr>c_id = ''c1'', c_user_id = ''aaaa'', c_contact_anonymous_id = ''7654321'',
      c_added_at = ''t1''\<rparr>]"
    by (simp add: d two_users_def alice_def)
  from ok e f have "\<exists>r db'. add_contact ''111'' ''7654321'' ''c1'' ''t1'' two_users = (Inr r, db') \<and>
      contacts db' = [\<lparr>c_id = ''c1'', c_user_id = ''aaaa'', c_contact_anonymous_id = ''7654321'',
                       c_added_at = ''t1''\<rparr>] \<and>
      add_contact ''111'' ''7654321'' ''c2'' ''t2'' db' =
        (Inl (HTTPException 400 ''Contact already added''), db')"
    by blast
  with caller a b show ?thesis by (intro conjI)
qed

end
